theory Spec2Isabelle
  imports Complex_Main
begin

section \<open>The Semantic Scholar client of paperoni\<close>

text \<open>
  A shallow embedding of \<^verbatim>\<open>paperoni/sources/scrapers/semantic_scholar.py\<close>:
  the field-set catalog, the paginated listing \<^verbatim>\<open>_list\<close> over \<^verbatim>\<open>_evaluate\<close>,
  the two conversions \<^verbatim>\<open>_wrap_author\<close> and \<^verbatim>\<open>_wrap_paper\<close>, the endpoint
  operations and the entry point \<^verbatim>\<open>query\<close>.

  Isabelle names cannot start with an underscore, so \<^verbatim>\<open>_list\<close>,
  \<^verbatim>\<open>_evaluate\<close>, \<^verbatim>\<open>_wrap_author\<close>, \<^verbatim>\<open>_wrap_paper\<close> and the three
  \<^verbatim>\<open>_*_fields\<close> helpers appear without it; \<^verbatim>\<open>_list\<close> is \<open>list_gen\<close> over the loop
  \<open>list_loop\<close>, and \<open>list_pages\<close> when its entries are taken as they come.
  Strings are \<open>char list\<close>, that is byte strings; \<^verbatim>\<open>str.lower\<close> is modelled on
  ASCII letters.
\<close>

subsection \<open>Exceptions and JSON presence\<close>

text \<open>The exceptions the module can raise, as values.\<close>

datatype exn =
    QueryError string
  | KeyError string
  | AttributeError
  | TypeError
  | ValueError
  | TransportError string

text \<open>
  A key of a JSON object is absent, present with \<^verbatim>\<open>null\<close>, or present with a value.
  \<^verbatim>\<open>data[k]\<close> raises \<^verbatim>\<open>KeyError\<close> on an absent key and returns \<^verbatim>\<open>None\<close> on null;
  \<^verbatim>\<open>data.get(k, d)\<close> returns \<open>d\<close> on an absent key.
\<close>

datatype 'a jfield = Absent | Null | Val 'a

datatype scalar = SNull | SStr string | SInt int

definition item :: "string \<Rightarrow> 'a jfield \<Rightarrow> exn + 'a option" where
  "item k f = (case f of Absent \<Rightarrow> Inl (KeyError k) | Null \<Rightarrow> Inr None | Val v \<Rightarrow> Inr (Some v))"

definition get_or :: "'a jfield \<Rightarrow> 'a option \<Rightarrow> 'a option" where
  "get_or f d = (case f of Absent \<Rightarrow> d | Null \<Rightarrow> None | Val v \<Rightarrow> Some v)"

definition bindE :: "exn + 'a \<Rightarrow> ('a \<Rightarrow> exn + 'b) \<Rightarrow> exn + 'b" where
  "bindE m f = (case m of Inl e \<Rightarrow> Inl e | Inr x \<Rightarrow> f x)"

text \<open>Python truthiness of an optional string and of an optional list.\<close>

definition truthy :: "'a list option \<Rightarrow> bool" where
  "truthy v = (case v of None \<Rightarrow> False | Some s \<Rightarrow> s \<noteq> [])"

text \<open>\<^verbatim>\<open>list(map(f, xs))\<close> where \<open>f\<close> may raise: the first failure aborts.\<close>

fun mapE :: "('a \<Rightarrow> exn + 'b) \<Rightarrow> 'a list \<Rightarrow> exn + 'b list" where
  "mapE f [] = Inr []"
| "mapE f (x # xs) =
     (case f x of Inl e \<Rightarrow> Inl e
      | Inr y \<Rightarrow> (case mapE f xs of Inl e \<Rightarrow> Inl e | Inr ys \<Rightarrow> Inr (y # ys)))"

definition lower_char :: "char \<Rightarrow> char" where
  "lower_char c =
     (let n = (of_char c :: nat) in if 65 \<le> n \<and> n \<le> 90 then char_of (n + 32) else c)"

definition lower :: "string \<Rightarrow> string" where
  "lower s = map lower_char s"

subsection \<open>The canonical model\<close>

datatype VenueType =
    VenueType_journal
  | VenueType_conference
  | VenueType_book
  | VenueType_review
  | VenueType_unknown

datatype DatePrecision = DatePrecision_unknown | DatePrecision_year | DatePrecision_day

text \<open>
  The \<^verbatim>\<open>date\<close> argument handed to \<^verbatim>\<open>Release\<close>: the text built by \<^verbatim>\<open>_wrap_paper\<close>
  from \<^verbatim>\<open>publicationDate\<close>, or a date that carries a year only.
\<close>

datatype date_value = DateText string | YearOnly int

text \<open>
  The value of \<^verbatim>\<open>(j := data["journal"]) and j.get("volume", None)\<close>: an empty journal
  object is falsy, so the expression is then the empty object itself.
\<close>

datatype volume = Volume scalar | EmptyJournal

record Link =
  link_type :: string
  link_ref :: scalar

record Topic =
  topic_name :: string

record Venue =
  venue_type :: VenueType
  venue_name :: "string option"
  venue_volume :: volume
  venue_links :: "Link list"

record Release =
  release_venue :: Venue
  release_date :: "date_value option"
  release_date_precision :: DatePrecision

record Author =
  author_name :: "string option"
  author_affiliations :: "string list"
  author_aliases :: "string list"
  author_links :: "Link list"
  author_roles :: "string list"

record Paper =
  paper_links :: "Link list"
  paper_authors_list :: "Author list"
  paper_title :: "string option"
  paper_abstract :: string
  paper_citation_count :: "int option"
  paper_topics :: "Topic list"
  paper_releases :: "Release list"
  paper_scrapers :: "string list"

subsection \<open>Raw records\<close>

record raw_author =
  authorId :: "string jfield"
  name :: "string jfield"
  aliases :: "string list jfield"

record raw_paper =
  paperId :: "string jfield"
  externalIds :: "(string \<times> scalar) list jfield"
  authors :: "raw_author list jfield"
  publicationDate :: "string jfield"
  year :: "int jfield"
  publicationTypes :: "string list jfield"
  venue :: "string jfield"
  journal :: "(string \<times> scalar) list jfield"
  title :: "string jfield"
  abstract :: "string jfield"
  citationCount :: "int jfield"
  fieldsOfStudy :: "string list jfield"

subsection \<open>The tables\<close>

definition external_ids_mapping :: "(string \<times> string) list" where
  "external_ids_mapping = [(''pubmedcentral'', ''pmc'')]"

definition venue_type_mapping :: "(string \<times> VenueType) list" where
  "venue_type_mapping =
     [(''JournalArticle'', VenueType_journal),
      (''Conference'', VenueType_conference),
      (''Book'', VenueType_book),
      (''Review'', VenueType_review),
      (''_'', VenueType_unknown)]"

text \<open>\<^verbatim>\<open>d.get(k, default)\<close> and \<^verbatim>\<open>d[k]\<close> on a table.\<close>

definition table_get :: "(string \<times> 'v) list \<Rightarrow> string \<Rightarrow> 'v \<Rightarrow> 'v" where
  "table_get d k dflt = (case map_of d k of None \<Rightarrow> dflt | Some v \<Rightarrow> v)"

definition table_item :: "(string \<times> 'v) list \<Rightarrow> string \<Rightarrow> exn + 'v" where
  "table_item d k = (case map_of d k of None \<Rightarrow> Inl (KeyError k) | Some v \<Rightarrow> Inr v)"

subsection \<open>The Normalizer\<close>

definition semantic_scholar_link :: "string \<Rightarrow> Link" where
  "semantic_scholar_link aid = \<lparr>link_type = ''semantic_scholar'', link_ref = SStr aid\<rparr>"

text \<open>
  \<^verbatim>\<open>_wrap_author\<close>: \<^verbatim>\<open>data["authorId"]\<close> is read first, then \<^verbatim>\<open>data["name"]\<close>;
  \<^verbatim>\<open>lnk\<close> is the falsy id itself when the id is null or empty.
\<close>

definition wrap_author :: "raw_author \<Rightarrow> exn + Author" where
  "wrap_author data =
     bindE (item ''authorId'' (authorId data)) (\<lambda>aid.
       let lnk = (if truthy aid then Some (semantic_scholar_link (the aid)) else None) in
       bindE (item ''name'' (name data)) (\<lambda>nm.
         Inr \<lparr>author_name = nm,
              author_affiliations = [],
              author_aliases =
                (let al = get_or (aliases data) None in if truthy al then the al else []),
              author_links = (case lnk of Some l \<Rightarrow> [l] | None \<Rightarrow> []),
              author_roles = []\<rparr>))"

text \<open>
  Modelled from the spec: \<^verbatim>\<open>DatePrecision.assimilate_date\<close>, defined in the model
  module. The spec: fall back to year-only precision derived from the record's year
  field, which may itself be absent, in which case precision is unknown and date is null.
\<close>

definition assimilate_date :: "int option \<Rightarrow> date_value option \<times> DatePrecision" where
  "assimilate_date y =
     (case y of None \<Rightarrow> (None, DatePrecision_unknown)
      | Some n \<Rightarrow> (Some (YearOnly n), DatePrecision_year))"

text \<open>
  The key used on \<^verbatim>\<open>venue_type_mapping\<close>:
  \<^verbatim>\<open>(pubt := data.get("publicationTypes", [])) and pubt[0] or "_"\<close>.
\<close>

definition venue_type_key :: "string list jfield \<Rightarrow> string" where
  "venue_type_key f =
     (case get_or f (Some []) of None \<Rightarrow> ''_''
      | Some [] \<Rightarrow> ''_''
      | Some (t # ts) \<Rightarrow> if t \<noteq> [] then t else ''_'')"

definition journal_volume :: "(string \<times> scalar) list option \<Rightarrow> volume" where
  "journal_volume j =
     (case j of None \<Rightarrow> Volume SNull
      | Some [] \<Rightarrow> EmptyJournal
      | Some kv \<Rightarrow> Volume (table_get kv ''volume'' SNull))"

definition external_link :: "string \<times> scalar \<Rightarrow> Link" where
  "external_link e =
     (let t = lower (fst e) in
      \<lparr>link_type = table_get external_ids_mapping t t, link_ref = snd e\<rparr>)"

text \<open>
  \<^verbatim>\<open>_wrap_paper\<close>, in the source's order of evaluation. The debugging print of the raw
  record at its start has no effect on the result and is left out.
\<close>

definition wrap_paper :: "raw_paper \<Rightarrow> exn + Paper" where
  "wrap_paper data =
     bindE (item ''paperId'' (paperId data)) (\<lambda>pid.
     bindE (item ''externalIds'' (externalIds data)) (\<lambda>ext.
     bindE (case ext of None \<Rightarrow> Inl AttributeError | Some kv \<Rightarrow> Inr kv) (\<lambda>kv.
     let links =
           \<lparr>link_type = ''semantic_scholar'',
            link_ref = (case pid of None \<Rightarrow> SNull | Some s \<Rightarrow> SStr s)\<rparr>
           # map external_link kv in
     bindE (item ''authors'' (authors data)) (\<lambda>raw_as.
     bindE (case raw_as of None \<Rightarrow> Inl TypeError | Some as \<Rightarrow> mapE wrap_author as) (\<lambda>auths.
     bindE (item ''publicationDate'' (publicationDate data)) (\<lambda>pubd.
     bindE (if truthy pubd
            then Inr (Some (DateText (the pubd @ '' 00:00'')), DatePrecision_day)
            else bindE (item ''year'' (year data)) (\<lambda>y. Inr (assimilate_date y))) (\<lambda>date.
     bindE (table_item venue_type_mapping (venue_type_key (publicationTypes data))) (\<lambda>vt.
     bindE (item ''venue'' (venue data)) (\<lambda>vname.
     bindE (item ''journal'' (journal data)) (\<lambda>j.
     let release =
           \<lparr>release_venue =
              \<lparr>venue_type = vt, venue_name = vname,
               venue_volume = journal_volume j, venue_links = []\<rparr>,
            release_date = fst date,
            release_date_precision = snd date\<rparr> in
     bindE (item ''title'' (title data)) (\<lambda>ttl.
     bindE (item ''abstract'' (abstract data)) (\<lambda>abs.
     bindE (item ''citationCount'' (citationCount data)) (\<lambda>cc.
     bindE (item ''fieldsOfStudy'' (fieldsOfStudy data)) (\<lambda>fos.
       Inr \<lparr>paper_links = links,
            paper_authors_list = auths,
            paper_title = ttl,
            paper_abstract = (if truthy abs then the abs else ''''),
            paper_citation_count = cc,
            paper_topics =
              map (\<lambda>f. \<lparr>topic_name = f\<rparr>) (if truthy fos then the fos else []),
            paper_releases = [release],
            paper_scrapers = [''ssch'']\<rparr>))))))))))))))"

text \<open>
  The records on which no subscript of \<^verbatim>\<open>_wrap_paper\<close> fails: every key it subscripts
  is present (\<^verbatim>\<open>year\<close> only where the publication date is null or empty),
  \<^verbatim>\<open>externalIds\<close> and \<^verbatim>\<open>authors\<close> are not null, every author carries the keys that
  \<^verbatim>\<open>_wrap_author\<close> subscripts, and the venue-type key is a key of the table.
\<close>

definition convertible :: "raw_paper \<Rightarrow> bool" where
  "convertible data =
     (paperId data \<noteq> Absent \<and>
      (case externalIds data of Val kv \<Rightarrow> True | _ \<Rightarrow> False) \<and>
      (case authors data of
         Val as \<Rightarrow> list_all (\<lambda>a. authorId a \<noteq> Absent \<and> name a \<noteq> Absent) as
       | _ \<Rightarrow> False) \<and>
      publicationDate data \<noteq> Absent \<and>
      (truthy (get_or (publicationDate data) None) \<or> year data \<noteq> Absent) \<and>
      venue_type_key (publicationTypes data) \<in> set (map fst venue_type_mapping) \<and>
      venue data \<noteq> Absent \<and> journal data \<noteq> Absent \<and> title data \<noteq> Absent \<and>
      abstract data \<noteq> Absent \<and> citationCount data \<noteq> Absent \<and>
      fieldsOfStudy data \<noteq> Absent)"

subsection \<open>The field-set catalog\<close>

definition with_parent :: "string option \<Rightarrow> string list \<Rightarrow> string list" where
  "with_parent parent flds =
     (case parent of None \<Rightarrow> flds | Some p \<Rightarrow> map (\<lambda>fld. p @ ''.'' @ fld) flds)"

definition paper_long_fields :: "string option \<Rightarrow> string list \<Rightarrow> string list" where
  "paper_long_fields parent extras =
     with_parent parent
       ([''paperId'', ''externalIds'', ''url'', ''title'', ''abstract'', ''venue'',
         ''publicationTypes'', ''publicationDate'', ''year'', ''journal'',
         ''referenceCount'', ''citationCount'', ''influentialCitationCount'',
         ''isOpenAccess'', ''fieldsOfStudy''] @ extras)"

definition paper_short_fields :: "string option \<Rightarrow> string list" where
  "paper_short_fields parent =
     with_parent parent [''paperId'', ''url'', ''title'', ''venue'', ''year'', ''authors'']"

definition author_fields :: "string option \<Rightarrow> string list" where
  "author_fields parent =
     with_parent parent
       [''authorId'', ''externalIds'', ''url'', ''name'', ''aliases'', ''affiliations'',
        ''homepage'', ''paperCount'', ''citationCount'']"

definition SEARCH_FIELDS :: "string list" where
  "SEARCH_FIELDS = paper_long_fields None [''authors'']"

definition PAPER_FIELDS :: "string list" where
  "PAPER_FIELDS =
     paper_long_fields None [] @ author_fields (Some ''authors'')
     @ paper_short_fields (Some ''citations'') @ paper_short_fields (Some ''references'')
     @ [''embedding'']"

definition PAPER_AUTHORS_FIELDS :: "string list" where
  "PAPER_AUTHORS_FIELDS = author_fields None @ paper_long_fields (Some ''papers'') [''authors'']"

definition PAPER_CITATIONS_FIELDS :: "string list" where
  "PAPER_CITATIONS_FIELDS = [''contexts'', ''intents'', ''isInfluential''] @ SEARCH_FIELDS"

definition PAPER_REFERENCES_FIELDS :: "string list" where
  "PAPER_REFERENCES_FIELDS = PAPER_CITATIONS_FIELDS"

definition AUTHOR_FIELDS :: "string list" where
  "AUTHOR_FIELDS = author_fields None"

definition AUTHOR_PAPERS_FIELDS :: "string list" where
  "AUTHOR_PAPERS_FIELDS =
     SEARCH_FIELDS @ paper_short_fields (Some ''citations'')
     @ paper_short_fields (Some ''references'')"

text \<open>\<^verbatim>\<open>sep.join(xs)\<close>.\<close>

fun join :: "string \<Rightarrow> string list \<Rightarrow> string" where
  "join sep [] = []"
| "join sep [x] = x"
| "join sep (x # y # ys) = x @ sep @ join sep (y # ys)"

subsection \<open>Requests, pages and the connection\<close>

text \<open>
  The keyword arguments of one \<^verbatim>\<open>_evaluate\<close> call. The text handed to
  \<^verbatim>\<open>conn.get\<close> is \<^verbatim>\<open>/graph/v1/{path}?{urlencode(params)}\<close>, a function of these.
\<close>

record request =
  req_path :: string
  req_offset :: int
  req_fields :: string
  req_limit :: int
  req_params :: "(string \<times> string) list"

text \<open>
  The parsed body of a response: the \<^verbatim>\<open>error\<close> key when present, the \<^verbatim>\<open>next\<close>
  cursor and the \<^verbatim>\<open>data\<close> array.
\<close>

record 'a body =
  body_error :: "string option"
  body_next :: "int jfield"
  body_data :: "'a list jfield"

text \<open>
  \<^verbatim>\<open>conn.get\<close> followed by \<^verbatim>\<open>json.loads\<close> either raises or gives a body. The
  connection is a stateful object: \<open>get\<close> takes its state and returns the new one.
\<close>

datatype 'a reply = Failure exn | Body "'a body"

type_synonym ('a, 'c) conn_get = "'c \<Rightarrow> request \<Rightarrow> 'a reply \<times> 'c"

definition evaluate :: "('a, 'c) conn_get \<Rightarrow> 'c \<Rightarrow> request \<Rightarrow> (exn + 'a body) \<times> 'c" where
  "evaluate get c r =
     (case get c r of
        (Failure e, c') \<Rightarrow> (Inl e, c')
      | (Body jdata, c') \<Rightarrow>
          (case body_error jdata of
             Some msg \<Rightarrow> (Inl (QueryError msg), c')
           | None \<Rightarrow> (Inr jdata, c')))"

subsection \<open>The Paginator\<close>

text \<open>
  The state of one run of the generator \<^verbatim>\<open>_list\<close>: the local \<^verbatim>\<open>next_offset\<close>, what
  the caller has received so far, the requests issued so far, and the connection.
\<close>

record ('b, 'c) run =
  run_offset :: "int option"
  run_yielded :: "'b list"
  run_requests :: "request list"
  run_conn :: 'c

datatype outcome = Returned | Raised exn | OutOfFuel

text \<open>The \<^verbatim>\<open>params\<close> dictionary that \<^verbatim>\<open>_list\<close> builds once, with its \<^verbatim>\<open>path\<close> and \<^verbatim>\<open>limit\<close>.\<close>

record listing =
  l_path :: string
  l_fields :: string
  l_page_limit :: int
  l_params :: "(string \<times> string) list"
  l_limit :: int

definition page_request :: "listing \<Rightarrow> int \<Rightarrow> request" where
  "page_request L k =
     \<lparr>req_path = l_path L, req_offset = k, req_fields = l_fields L,
      req_limit = l_page_limit L, req_params = l_params L\<rparr>"

text \<open>
  The entries of one page go to the caller one at a time; the caller's own processing
  \<open>f\<close> of an entry (\<^verbatim>\<open>map(self._wrap_paper, papers)\<close>) may raise, which abandons the
  generator.
\<close>

fun consume :: "('a \<Rightarrow> exn + 'b) \<Rightarrow> 'a list \<Rightarrow> 'b list \<Rightarrow> exn option \<times> 'b list" where
  "consume f [] acc = (None, acc)"
| "consume f (x # xs) acc =
     (case f x of Inl e \<Rightarrow> (Some e, acc) | Inr y \<Rightarrow> consume f xs (acc @ [y]))"

text \<open>
  The \<^verbatim>\<open>while\<close> loop of \<^verbatim>\<open>_list\<close>. The server chooses \<^verbatim>\<open>next\<close>, so the loop need not
  end: the first argument bounds the number of requests, and \<open>OutOfFuel\<close> is the
  outcome of a run that would issue one more.
\<close>

fun list_loop ::
  "('a, 'c) conn_get \<Rightarrow> ('a \<Rightarrow> exn + 'b) \<Rightarrow> listing \<Rightarrow> nat \<Rightarrow> ('b, 'c) run
   \<Rightarrow> outcome \<times> ('b, 'c) run" where
  "list_loop get f L fuel s =
     (case run_offset s of
        None \<Rightarrow> (Returned, s)
      | Some k \<Rightarrow>
          if \<not> k < l_limit L then (Returned, s)
          else
            (case fuel of
               0 \<Rightarrow> (OutOfFuel, s)
             | Suc n \<Rightarrow>
                 (case evaluate get (run_conn s) (page_request L k) of
                    (res, c') \<Rightarrow>
                      (let s1 = s\<lparr>run_requests := run_requests s @ [page_request L k],
                                  run_conn := c'\<rparr> in
                       case res of
                         Inl e \<Rightarrow> (Raised e, s1)
                       | Inr results \<Rightarrow>
                           (let s2 = s1\<lparr>run_offset := get_or (body_next results) None\<rparr> in
                            case body_data results of
                              Absent \<Rightarrow> (Raised (KeyError ''data''), s2)
                            | Null \<Rightarrow> (Raised TypeError, s2)
                            | Val entries \<Rightarrow>
                                (case consume f entries (run_yielded s2) of
                                   (Some e, ys) \<Rightarrow> (Raised e, s2\<lparr>run_yielded := ys\<rparr>)
                                 | (None, ys) \<Rightarrow>
                                     list_loop get f L n (s2\<lparr>run_yielded := ys\<rparr>)))))))"

definition list_gen ::
  "('a, 'c) conn_get \<Rightarrow> ('a \<Rightarrow> exn + 'b) \<Rightarrow> string \<Rightarrow> string list \<Rightarrow> int \<Rightarrow> int
   \<Rightarrow> (string \<times> string) list \<Rightarrow> nat \<Rightarrow> 'c \<Rightarrow> outcome \<times> ('b, 'c) run" where
  "list_gen get f path flds block_size limit params fuel c =
     list_loop get f
       \<lparr>l_path = path, l_fields = join '','' flds,
        l_page_limit = min (if block_size = 0 then 10000 else block_size) limit,
        l_params = params, l_limit = limit\<rparr>
       fuel
       \<lparr>run_offset = Some 0, run_yielded = [], run_requests = [], run_conn = c\<rparr>"

text \<open>\<^verbatim>\<open>_list\<close> consumed as it is: every entry reaches the caller unchanged.\<close>

definition list_pages ::
  "('a, 'c) conn_get \<Rightarrow> string \<Rightarrow> string list \<Rightarrow> int \<Rightarrow> int
   \<Rightarrow> (string \<times> string) list \<Rightarrow> nat \<Rightarrow> 'c \<Rightarrow> outcome \<times> ('a, 'c) run" where
  "list_pages get path flds block_size limit params fuel c =
     list_gen get Inr path flds block_size limit params fuel c"

declare list_loop.simps [simp del]

subsection \<open>The endpoint operations\<close>

text \<open>
  \<^verbatim>\<open>block_size\<close> and \<^verbatim>\<open>limit\<close> reach \<^verbatim>\<open>_list\<close> through \<^verbatim>\<open>**params\<close>; the caller
  passes 100 and 10000 for the defaults. The remaining keyword arguments are \<open>params\<close>.
\<close>

definition search ::
  "(raw_paper, 'c) conn_get \<Rightarrow> string \<Rightarrow> string list \<Rightarrow> int \<Rightarrow> int
   \<Rightarrow> (string \<times> string) list \<Rightarrow> nat \<Rightarrow> 'c \<Rightarrow> outcome \<times> (Paper, 'c) run" where
  "search get query flds block_size limit params fuel c =
     list_gen get wrap_paper ''paper/search'' flds block_size limit
       ((''query'', query) # params) fuel c"

definition paper_authors ::
  "('a, 'c) conn_get \<Rightarrow> string \<Rightarrow> string list \<Rightarrow> int \<Rightarrow> int
   \<Rightarrow> (string \<times> string) list \<Rightarrow> nat \<Rightarrow> 'c \<Rightarrow> outcome \<times> ('a, 'c) run" where
  "paper_authors get paper_id flds block_size limit params fuel c =
     list_pages get (''paper/'' @ paper_id @ ''/authors'') flds block_size limit params fuel c"

definition paper_citations ::
  "('a, 'c) conn_get \<Rightarrow> string \<Rightarrow> string list \<Rightarrow> int \<Rightarrow> int
   \<Rightarrow> (string \<times> string) list \<Rightarrow> nat \<Rightarrow> 'c \<Rightarrow> outcome \<times> ('a, 'c) run" where
  "paper_citations get paper_id flds block_size limit params fuel c =
     list_pages get (''paper/'' @ paper_id @ ''/citations'') flds block_size limit params fuel c"

definition paper_references ::
  "('a, 'c) conn_get \<Rightarrow> string \<Rightarrow> string list \<Rightarrow> int \<Rightarrow> int
   \<Rightarrow> (string \<times> string) list \<Rightarrow> nat \<Rightarrow> 'c \<Rightarrow> outcome \<times> ('a, 'c) run" where
  "paper_references get paper_id flds block_size limit params fuel c =
     list_pages get (''paper/'' @ paper_id @ ''/citations'') flds block_size limit params fuel c"

definition author ::
  "(raw_author, 'c) conn_get \<Rightarrow> string \<Rightarrow> string list \<Rightarrow> int \<Rightarrow> int
   \<Rightarrow> (string \<times> string) list \<Rightarrow> nat \<Rightarrow> 'c \<Rightarrow> outcome \<times> (Author, 'c) run" where
  "author get nm flds block_size limit params fuel c =
     list_gen get wrap_author ''author/search'' flds block_size limit
       ((''query'', nm) # params) fuel c"

definition author_papers ::
  "(raw_paper, 'c) conn_get \<Rightarrow> string \<Rightarrow> string list \<Rightarrow> int \<Rightarrow> int
   \<Rightarrow> (string \<times> string) list \<Rightarrow> nat \<Rightarrow> 'c \<Rightarrow> outcome \<times> (Paper, 'c) run" where
  "author_papers get author_id flds block_size limit params fuel c =
     list_gen get wrap_paper (''author/'' @ author_id @ ''/papers'') flds block_size limit
       params fuel c"

subsection \<open>The entry point\<close>

text \<open>
  What one full consumption of \<^verbatim>\<open>query\<close> does: how it ends, the connection of the
  \<^verbatim>\<open>SemanticScholarQueryManager\<close> if one was constructed, the requests issued, the papers
  yielded and the authors printed. \<open>new_conn\<close> is the connection a fresh manager holds;
  the connection serves paper pages through \<open>get_papers\<close> and author pages through
  \<open>get_authors\<close>.
\<close>

record 'c query_result =
  q_outcome :: outcome
  q_conn :: "'c option"
  q_requests :: "request list"
  q_yielded :: "Paper list"
  q_printed :: "Author list"

definition query ::
  "(raw_paper, 'c) conn_get \<Rightarrow> (raw_author, 'c) conn_get \<Rightarrow> 'c \<Rightarrow> string list
   \<Rightarrow> string list \<Rightarrow> int \<Rightarrow> int \<Rightarrow> nat \<Rightarrow> 'c query_result" where
  "query get_papers get_authors new_conn author_opt title_opt block_size limit fuel =
     (let a = join '' '' author_opt; t = join '' '' title_opt in
      if a \<noteq> [] \<and> t \<noteq> [] then
        \<lparr>q_outcome = Raised (QueryError ''Cannot query both author and title''),
         q_conn = None, q_requests = [], q_yielded = [], q_printed = []\<rparr>
      else if t \<noteq> [] then
        (case search get_papers t SEARCH_FIELDS block_size limit [] fuel new_conn of
           (out, s) \<Rightarrow>
             \<lparr>q_outcome = out, q_conn = Some (run_conn s), q_requests = run_requests s,
              q_yielded = run_yielded s, q_printed = []\<rparr>)
      else if a \<noteq> [] then
        (case author get_authors a AUTHOR_FIELDS 100 10000 [] fuel new_conn of
           (out, s) \<Rightarrow>
             \<lparr>q_outcome = out, q_conn = Some (run_conn s), q_requests = run_requests s,
              q_yielded = [], q_printed = run_yielded s\<rparr>)
      else
        \<lparr>q_outcome = Returned, q_conn = Some new_conn, q_requests = [], q_yielded = [],
         q_printed = []\<rparr>)"

subsection \<open>The rate-limited connection\<close>

text \<open>
  \<^verbatim>\<open>SemanticScholarQueryManager.__init__\<close> constructs the connection with
  \<^verbatim>\<open>delay=5 * 60 / 100\<close>.
\<close>

definition manager_delay :: rat where
  "manager_delay = 5 * 60 / 100"

text \<open>
  Modelled from the spec: \<^verbatim>\<open>HTTPSAcquirer\<close>, defined in the acquire module. The spec:
  before issuing any request beyond the first, the connection must ensure at least \<open>D\<close>
  seconds have elapsed since the previous request's issuance; the delay is enforced by
  the issuing side blocking before send. The state is the delay and the time of the last
  issuance; \<open>acquirer_get a now\<close> is a call made at time \<open>now\<close> and gives the time at
  which the request is issued.
\<close>

record acquirer =
  acq_delay :: rat
  acq_last :: "rat option"

definition HTTPSAcquirer :: "rat \<Rightarrow> acquirer" where
  "HTTPSAcquirer delay = \<lparr>acq_delay = delay, acq_last = None\<rparr>"

text \<open>
  Modelled from the spec: \<^verbatim>\<open>HTTPSAcquirer.get\<close>. The first request is issued when it is
  called; a later one once \<open>D\<close> seconds have passed since the previous issuance.
\<close>

definition acquirer_get :: "acquirer \<Rightarrow> rat \<Rightarrow> rat \<times> acquirer" where
  "acquirer_get a now =
     (let t = (case acq_last a of None \<Rightarrow> now | Some l \<Rightarrow> max now (l + acq_delay a))
      in (t, a\<lparr>acq_last := Some t\<rparr>))"

text \<open>The issuance times of a sequence of calls made at the given times.\<close>

fun issue_times :: "acquirer \<Rightarrow> rat list \<Rightarrow> rat list" where
  "issue_times a [] = []"
| "issue_times a (now # nows) =
     (case acquirer_get a now of (t, a') \<Rightarrow> t # issue_times a' nows)"

definition manager_conn :: acquirer where
  "manager_conn = HTTPSAcquirer manager_delay"

subsection \<open>Sample records and servers\<close>

definition example_author :: raw_author where
  "example_author =
     \<lparr>authorId = Val ''1741101'', name = Val ''Oren Etzioni'', aliases = Absent\<rparr>"

definition example_paper :: raw_paper where
  "example_paper =
     \<lparr>paperId = Val ''649def34'',
      externalIds =
        Val [(''DOI'', SStr ''10.1000/x1''), (''PubMedCentral'', SStr ''7001''),
             (''CorpusId'', SInt 42)],
      authors = Val [example_author],
      publicationDate = Val ''2020-05-01'',
      year = Val 2020,
      publicationTypes = Val [''JournalArticle''],
      venue = Val ''Nature'',
      journal = Val [(''name'', SStr ''Nature''), (''volume'', SStr ''7'')],
      title = Val ''A paper'',
      abstract = Null,
      citationCount = Val 3,
      fieldsOfStudy = Null\<rparr>"

text \<open>
  A server that pages through a fixed result list as the API documents it: the page is
  the \<^verbatim>\<open>limit\<close> records from \<^verbatim>\<open>offset\<close> on, and \<^verbatim>\<open>next\<close> is the offset after the
  page, absent on the last page. Its state counts the requests served.
\<close>

definition paged_server :: "'a list \<Rightarrow> ('a, nat) conn_get" where
  "paged_server records c r =
     (Body \<lparr>body_error = None,
            body_next =
              (if req_offset r + req_limit r < int (length records)
               then Val (req_offset r + req_limit r) else Absent),
            body_data = Val (take (nat (req_limit r)) (drop (nat (req_offset r)) records))\<rparr>,
      Suc c)"

text \<open>The same server, answering its second request with an error body.\<close>

definition rate_limited_server :: "'a list \<Rightarrow> ('a, nat) conn_get" where
  "rate_limited_server records c r =
     (if c = 1
      then (Body \<lparr>body_error = Some ''rate limit exceeded'', body_next = Absent,
                  body_data = Absent\<rparr>, Suc c)
      else paged_server records c r)"

subsection \<open>The conversions\<close>

lemma bindE_Inr: "bindE m f = Inr y \<longleftrightarrow> (\<exists>x. m = Inr x \<and> f x = Inr y)"
  by (cases m) (simp_all add: bindE_def)

lemma item_Inr: "item k f = Inr v \<longleftrightarrow> (f \<noteq> Absent \<and> v = get_or f None)"
  by (cases f) (auto simp: item_def get_or_def)

lemma wrap_author_Inr:
  "wrap_author data = Inr a \<longleftrightarrow>
     authorId data \<noteq> Absent \<and> name data \<noteq> Absent \<and>
     a = \<lparr>author_name = get_or (name data) None,
          author_affiliations = [],
          author_aliases = (case aliases data of Val al \<Rightarrow> al | _ \<Rightarrow> []),
          author_links =
            (case authorId data of
               Val aid \<Rightarrow>
                 if aid \<noteq> [] then [\<lparr>link_type = ''semantic_scholar'', link_ref = SStr aid\<rparr>]
                 else []
             | _ \<Rightarrow> []),
          author_roles = []\<rparr>"
  by (cases "authorId data"; cases "name data"; cases "aliases data")
     (auto simp: wrap_author_def bindE_def item_def get_or_def truthy_def Let_def
        semantic_scholar_link_def)



lemma mapE_Inr_length: "mapE f xs = Inr ys \<Longrightarrow> length ys = length xs"
  by (induction xs arbitrary: ys) (auto split: sum.splits)

lemma wrap_paper_Inr:
  assumes "wrap_paper data = Inr p"
  obtains kv auths date vt where
     "paperId data \<noteq> Absent" "externalIds data = Val kv"
     "publicationDate data \<noteq> Absent"
     "if truthy (get_or (publicationDate data) None)
      then date = (Some (DateText (the (get_or (publicationDate data) None) @ '' 00:00'')), DatePrecision_day)
      else year data \<noteq> Absent \<and> date = assimilate_date (get_or (year data) None)"
     "table_item venue_type_mapping (venue_type_key (publicationTypes data)) = Inr vt"
     "abstract data \<noteq> Absent"
     "p = \<lparr>paper_links =
            \<lparr>link_type = ''semantic_scholar'',
             link_ref = (case get_or (paperId data) None of None \<Rightarrow> SNull | Some s \<Rightarrow> SStr s)\<rparr>
            # map external_link kv,
          paper_authors_list = auths,
          paper_title = get_or (title data) None,
          paper_abstract = (if truthy (get_or (abstract data) None) then the (get_or (abstract data) None) else []),
          paper_citation_count = get_or (citationCount data) None,
          paper_topics = map (\<lambda>f. \<lparr>topic_name = f\<rparr>) (if truthy (get_or (fieldsOfStudy data) None) then the (get_or (fieldsOfStudy data) None) else []),
          paper_releases =
            [\<lparr>release_venue =
                \<lparr>venue_type = vt, venue_name = get_or (venue data) None,
                 venue_volume = journal_volume (get_or (journal data) None), venue_links = []\<rparr>,
              release_date = fst date, release_date_precision = snd date\<rparr>],
          paper_scrapers = [''ssch'']\<rparr>"
proof -
  from assms obtain pid ext kv raw_as auths pubd date vt vname j ttl abs cc fos where
    h: "item ''paperId'' (paperId data) = Inr pid"
       "item ''externalIds'' (externalIds data) = Inr ext"
       "(case ext of None \<Rightarrow> Inl AttributeError | Some kv \<Rightarrow> Inr kv) = Inr kv"
       "item ''authors'' (authors data) = Inr raw_as"
       "(case raw_as of None \<Rightarrow> Inl TypeError | Some as \<Rightarrow> mapE wrap_author as) = Inr auths"
       "item ''publicationDate'' (publicationDate data) = Inr pubd"
       "(if truthy pubd
            then Inr (Some (DateText (the pubd @ '' 00:00'')), DatePrecision_day)
            else bindE (item ''year'' (year data)) (\<lambda>y. Inr (assimilate_date y))) = Inr date"
       "table_item venue_type_mapping (venue_type_key (publicationTypes data)) = Inr vt"
       "item ''venue'' (venue data) = Inr vname"
       "item ''journal'' (journal data) = Inr j"
       "item ''title'' (title data) = Inr ttl"
       "item ''abstract'' (abstract data) = Inr abs"
       "item ''citationCount'' (citationCount data) = Inr cc"
       "item ''fieldsOfStudy'' (fieldsOfStudy data) = Inr fos"
    and p: "p = \<lparr>paper_links = \<lparr>link_type = ''semantic_scholar'',
            link_ref = (case pid of None \<Rightarrow> SNull | Some s \<Rightarrow> SStr s)\<rparr>
           # map external_link kv,
            paper_authors_list = auths,
            paper_title = ttl,
            paper_abstract = (if truthy abs then the abs else []),
            paper_citation_count = cc,
            paper_topics =
              map (\<lambda>f. \<lparr>topic_name = f\<rparr>) (if truthy fos then the fos else []),
            paper_releases = [\<lparr>release_venue =
              \<lparr>venue_type = vt, venue_name = vname,
               venue_volume = journal_volume j, venue_links = []\<rparr>,
            release_date = fst date,
            release_date_precision = snd date\<rparr>],
            paper_scrapers = [''ssch'']\<rparr>"
    unfolding wrap_paper_def bindE_Inr Let_def by blast
  from h(2,3) have kv: "externalIds data = Val kv"
    by (cases "externalIds data") (auto simp: item_def)
  have d: "if truthy (get_or (publicationDate data) None)
      then date = (Some (DateText (the (get_or (publicationDate data) None) @ '' 00:00'')), DatePrecision_day)
      else year data \<noteq> Absent \<and> date = assimilate_date (get_or (year data) None)"
    using h(6,7) by (auto simp: item_Inr bindE_Inr split: if_splits)
  show thesis
    by (rule that [OF _ kv _ d h(8)]) (use h p in \<open>simp_all add: item_Inr\<close>)
qed

lemma external_link_type:
  "external_link (typ, ref) =
     \<lparr>link_type = (if lower typ = ''pubmedcentral'' then ''pmc'' else lower typ), link_ref = ref\<rparr>"
  by (simp add: external_link_def external_ids_mapping_def table_get_def Let_def)

text \<open>Which records are converted: exactly those on which no subscript fails.\<close>

lemma item_present: "f \<noteq> Absent \<Longrightarrow> item k f = Inr (get_or f None)"
  by (cases f) (simp_all add: item_def get_or_def)

lemma bindE_simps: "bindE (Inr x) f = f x" "bindE (Inl e) f = Inl e"
  by (simp_all add: bindE_def)

lemma mapE_wrap_author:
  "(\<exists>ys. mapE wrap_author as = Inr ys) = list_all (\<lambda>a. authorId a \<noteq> Absent \<and> name a \<noteq> Absent) as"
proof (induction as)
  case Nil
  show ?case by simp
next
  case (Cons a as)
  have a: "(\<exists>y. wrap_author a = Inr y) = (authorId a \<noteq> Absent \<and> name a \<noteq> Absent)"
    by (simp add: wrap_author_Inr)
  show ?case
  proof (cases "wrap_author a")
    case (Inl e)
    with a show ?thesis by auto
  next
    case (Inr y)
    with a Cons.IH show ?thesis
      by (cases "mapE wrap_author as") auto
  qed
qed

lemma wrap_paper_convertible:
  assumes "convertible data"
  shows "\<exists>p. wrap_paper data = Inr p"
proof -
  from assms obtain kv as where kv: "externalIds data = Val kv" and as: "authors data = Val as"
    and al: "list_all (\<lambda>a. authorId a \<noteq> Absent \<and> name a \<noteq> Absent) as"
    by (auto simp: convertible_def split: jfield.splits)
  from al obtain auths where auths: "mapE wrap_author as = Inr auths"
    using mapE_wrap_author [of as] by blast
  from assms obtain vt where
    vt: "table_item venue_type_mapping (venue_type_key (publicationTypes data)) = Inr vt"
    by (cases "map_of venue_type_mapping (venue_type_key (publicationTypes data))")
       (auto simp: convertible_def table_item_def map_of_eq_None_iff)
  from assms have pres: "paperId data \<noteq> Absent" "publicationDate data \<noteq> Absent"
    "venue data \<noteq> Absent" "journal data \<noteq> Absent" "title data \<noteq> Absent"
    "abstract data \<noteq> Absent" "citationCount data \<noteq> Absent" "fieldsOfStudy data \<noteq> Absent"
    and yr: "truthy (get_or (publicationDate data) None) \<or> year data \<noteq> Absent"
    by (simp_all add: convertible_def)
  show ?thesis
  proof (cases "truthy (get_or (publicationDate data) None)")
    case True
    with kv as auths vt pres show ?thesis
      by (simp add: wrap_paper_def item_present bindE_simps get_or_def Let_def)
  next
    case False
    with yr have "year data \<noteq> Absent" by simp
    with False kv as auths vt pres show ?thesis
      by (simp add: wrap_paper_def item_present bindE_simps get_or_def Let_def)
  qed
qed

lemma wrap_paper_Inr_convertible:
  assumes "wrap_paper data = Inr p"
  shows "convertible data"
proof -
  from assms obtain pid ext kv raw_as auths pubd date vt vname j ttl abs cc fos where
    h: "item ''paperId'' (paperId data) = Inr pid"
       "item ''externalIds'' (externalIds data) = Inr ext"
       "(case ext of None \<Rightarrow> Inl AttributeError | Some kv \<Rightarrow> Inr kv) = Inr kv"
       "item ''authors'' (authors data) = Inr raw_as"
       "(case raw_as of None \<Rightarrow> Inl TypeError | Some as \<Rightarrow> mapE wrap_author as) = Inr auths"
       "item ''publicationDate'' (publicationDate data) = Inr pubd"
       "(if truthy pubd
            then Inr (Some (DateText (the pubd @ '' 00:00'')), DatePrecision_day)
            else bindE (item ''year'' (year data)) (\<lambda>y. Inr (assimilate_date y))) = Inr date"
       "table_item venue_type_mapping (venue_type_key (publicationTypes data)) = Inr vt"
       "item ''venue'' (venue data) = Inr vname"
       "item ''journal'' (journal data) = Inr j"
       "item ''title'' (title data) = Inr ttl"
       "item ''abstract'' (abstract data) = Inr abs"
       "item ''citationCount'' (citationCount data) = Inr cc"
       "item ''fieldsOfStudy'' (fieldsOfStudy data) = Inr fos"
    unfolding wrap_paper_def bindE_Inr Let_def by blast
  from h(2,3) have 1: "case externalIds data of Val kv \<Rightarrow> True | _ \<Rightarrow> False"
    by (cases "externalIds data") (auto simp: item_def)
  from h(4,5) obtain as where as: "authors data = Val as" and m: "mapE wrap_author as = Inr auths"
    by (cases "authors data") (auto simp: item_def)
  from m have "list_all (\<lambda>a. authorId a \<noteq> Absent \<and> name a \<noteq> Absent) as"
    using mapE_wrap_author [of as] by blast
  with as have 2: "case authors data of
         Val as \<Rightarrow> list_all (\<lambda>a. authorId a \<noteq> Absent \<and> name a \<noteq> Absent) as
       | _ \<Rightarrow> False"
    by simp
  from h(6,7) have 3: "truthy (get_or (publicationDate data) None) \<or> year data \<noteq> Absent"
    by (auto simp: item_Inr bindE_Inr split: if_splits)
  from h(8) have 4: "venue_type_key (publicationTypes data) \<in> set (map fst venue_type_mapping)"
    by (cases "map_of venue_type_mapping (venue_type_key (publicationTypes data))")
       (force simp: table_item_def dest!: map_of_SomeD)+
  from h 1 2 3 4 show ?thesis
    unfolding convertible_def by (simp add: item_Inr)
qed

lemma wrap_paper_converts: "(\<exists>p. wrap_paper data = Inr p) = convertible data"
  using wrap_paper_convertible wrap_paper_Inr_convertible by blast

lemma convertible_example: "convertible example_paper"
  by code_simp

text \<open>Lowercasing, character by character.\<close>

lemma lower_char_upper:
  "map lower_char ''ABCDEFGHIJKLMNOPQRSTUVWXYZ'' = ''abcdefghijklmnopqrstuvwxyz''"
  by code_simp

lemma upper_codes: "map char_of [65..<91::nat] = ''ABCDEFGHIJKLMNOPQRSTUVWXYZ''"
  by code_simp

lemma lower_char_other:
  assumes "c \<notin> set ''ABCDEFGHIJKLMNOPQRSTUVWXYZ''"
  shows "lower_char c = c"
proof (rule ccontr)
  assume "lower_char c \<noteq> c"
  then have "65 \<le> (of_char c :: nat) \<and> (of_char c :: nat) \<le> 90"
    by (auto simp: lower_char_def Let_def split: if_splits)
  then have "(of_char c :: nat) \<in> {65..<91}"
    by (simp only: atLeastLessThan_iff) arith
  then have "(of_char c :: nat) \<in> set [65..<91]"
    by (simp only: set_upt)
  then have "char_of (of_char c :: nat) \<in> set (map char_of [65..<91::nat])"
    by (simp only: set_map image_eqI)
  then have "c \<in> set ''ABCDEFGHIJKLMNOPQRSTUVWXYZ''"
    by (simp only: upper_codes char_of_char)
  with assms show False by simp
qed

text \<open>
  C5. \<^verbatim>\<open>_wrap_paper\<close> converts exactly the records on which none of its subscripts
  fails. For every record it converts, the links start with the source-native link (type
  \<^verbatim>\<open>semantic_scholar\<close>, the record's \<^verbatim>\<open>paperId\<close>), followed by one link per entry of
  \<^verbatim>\<open>externalIds\<close>, in order. The remapping table holds the single key
  \<^verbatim>\<open>pubmedcentral\<close>: a key whose lowercase form is that key gets the type \<^verbatim>\<open>pmc\<close>,
  every other key its own lowercase form. Lowercasing maps each of the letters A to Z to
  its small letter and leaves every other character as it is.
\<close>

theorem wrap_paper_links:
  "((\<exists>p. wrap_paper data = Inr p) = convertible data) \<and>
   (\<forall>p. wrap_paper data = Inr p \<longrightarrow>
      (\<exists>kv. externalIds data = Val kv \<and>
         paper_links p =
           \<lparr>link_type = ''semantic_scholar'',
            link_ref = (case paperId data of Val s \<Rightarrow> SStr s | _ \<Rightarrow> SNull)\<rparr>
           # map (\<lambda>(typ, ref).
                  \<lparr>link_type = (if lower typ = ''pubmedcentral'' then ''pmc'' else lower typ),
                   link_ref = ref\<rparr>) kv)) \<and>
   map_of external_ids_mapping = [''pubmedcentral'' \<mapsto> ''pmc''] \<and>
   (\<forall>s. lower s = map lower_char s) \<and>
   map lower_char ''ABCDEFGHIJKLMNOPQRSTUVWXYZ'' = ''abcdefghijklmnopqrstuvwxyz'' \<and>
   (\<forall>c. c \<notin> set ''ABCDEFGHIJKLMNOPQRSTUVWXYZ'' \<longrightarrow> lower_char c = c)"
proof (intro conjI allI impI)
  show "(\<exists>p. wrap_paper data = Inr p) = convertible data"
    by (rule wrap_paper_converts)
next
  fix p
  assume "wrap_paper data = Inr p"
  then obtain kv where kv: "externalIds data = Val kv"
    and l: "paper_links p =
       \<lparr>link_type = ''semantic_scholar'',
        link_ref = (case get_or (paperId data) None of None \<Rightarrow> SNull | Some s \<Rightarrow> SStr s)\<rparr>
       # map external_link kv"
    by (rule wrap_paper_Inr) simp
  have m: "map external_link kv =
      map (\<lambda>(typ, ref).
                 \<lparr>link_type = (if lower typ = ''pubmedcentral'' then ''pmc'' else lower typ),
                  link_ref = ref\<rparr>) kv"
    by (rule map_cong) (auto simp: external_link_type)
  have r: "(case get_or (paperId data) None of None \<Rightarrow> SNull | Some s \<Rightarrow> SStr s)
       = (case paperId data of Val s \<Rightarrow> SStr s | _ \<Rightarrow> SNull)"
    by (cases "paperId data") (simp_all add: get_or_def)
  from kv l m r show "\<exists>kv. externalIds data = Val kv \<and>
         paper_links p =
           \<lparr>link_type = ''semantic_scholar'',
            link_ref = (case paperId data of Val s \<Rightarrow> SStr s | _ \<Rightarrow> SNull)\<rparr>
           # map (\<lambda>(typ, ref).
                  \<lparr>link_type = (if lower typ = ''pubmedcentral'' then ''pmc'' else lower typ),
                   link_ref = ref\<rparr>) kv"
    by simp
next
  show "map_of external_ids_mapping = [''pubmedcentral'' \<mapsto> ''pmc'']"
    by (simp add: external_ids_mapping_def)
next
  fix s
  show "lower s = map lower_char s"
    by (simp add: lower_def)
next
  show "map lower_char ''ABCDEFGHIJKLMNOPQRSTUVWXYZ'' = ''abcdefghijklmnopqrstuvwxyz''"
    by (rule lower_char_upper)
next
  fix c
  assume "c \<notin> set ''ABCDEFGHIJKLMNOPQRSTUVWXYZ''"
  then show "lower_char c = c"
    by (rule lower_char_other)
qed

lemma wrap_example_paper:
  "wrap_paper example_paper =
     Inr \<lparr>paper_links =
        [\<lparr>link_type = ''semantic_scholar'', link_ref = SStr ''649def34''\<rparr>,
         \<lparr>link_type = ''doi'', link_ref = SStr ''10.1000/x1''\<rparr>,
         \<lparr>link_type = ''pmc'', link_ref = SStr ''7001''\<rparr>,
         \<lparr>link_type = ''corpusid'', link_ref = SInt 42\<rparr>],
        paper_authors_list =
          [\<lparr>author_name = Some ''Oren Etzioni'', author_affiliations = [],
              author_aliases = [],
              author_links =
                [\<lparr>link_type = ''semantic_scholar'',
                    link_ref = SStr ''1741101''\<rparr>],
              author_roles = []\<rparr>],
        paper_title = Some ''A paper'', paper_abstract = [],
        paper_citation_count = Some 3, paper_topics = [],
        paper_releases =
          [\<lparr>release_venue =
              \<lparr>venue_type = VenueType_journal, venue_name = Some ''Nature'',
                 venue_volume = Volume (SStr ''7''), venue_links = []\<rparr>,
              release_date = Some (DateText ''2020-05-01 00:00''),
              release_date_precision = DatePrecision_day\<rparr>],
        paper_scrapers = [''ssch'']\<rparr>"
  by code_simp

lemma lower_samples:
  "lower ''DOI'' = ''doi''" "lower ''PubMedCentral'' = ''pubmedcentral''"
  "lower ''CorpusId'' = ''corpusid''"
  by code_simp+

theorem wrap_paper_links_witness:
  "convertible example_paper \<and>
   (\<exists>p. wrap_paper example_paper = Inr p \<and>
     paper_links p =
        [\<lparr>link_type = ''semantic_scholar'', link_ref = SStr ''649def34''\<rparr>,
         \<lparr>link_type = ''doi'', link_ref = SStr ''10.1000/x1''\<rparr>,
         \<lparr>link_type = ''pmc'', link_ref = SStr ''7001''\<rparr>,
         \<lparr>link_type = ''corpusid'', link_ref = SInt 42\<rparr>])
   \<and> CHR ''x'' \<notin> set ''ABCDEFGHIJKLMNOPQRSTUVWXYZ'' \<and> lower_char CHR ''x'' = CHR ''x''"
proof -
  note t = wrap_paper_links [of example_paper]
  from t convertible_example obtain p where p: "wrap_paper example_paper = Inr p"
    by blast
  with t have
    "paper_links p =
        [\<lparr>link_type = ''semantic_scholar'', link_ref = SStr ''649def34''\<rparr>,
         \<lparr>link_type = ''doi'', link_ref = SStr ''10.1000/x1''\<rparr>,
         \<lparr>link_type = ''pmc'', link_ref = SStr ''7001''\<rparr>,
         \<lparr>link_type = ''corpusid'', link_ref = SInt 42\<rparr>]"
    by (auto simp: example_paper_def lower_samples)
  moreover have x: "CHR ''x'' \<notin> set ''ABCDEFGHIJKLMNOPQRSTUVWXYZ''"
    by simp
  moreover from t x have "lower_char CHR ''x'' = CHR ''x''"
    by blast
  ultimately show ?thesis
    using p convertible_example x by blast
qed

text \<open>
  C6. Every paper that \<^verbatim>\<open>_wrap_paper\<close> produces has a non-empty list of links headed
  by the source-native link, an abstract that is the upstream string or the empty string
  when upstream is null, exactly one release, and the scrapers list \<^verbatim>\<open>["ssch"]\<close>.
\<close>

theorem wrap_paper_invariant:
  "wrap_paper data = Inr p \<Longrightarrow>
     paper_links p \<noteq> [] \<and>
     hd (paper_links p) =
       \<lparr>link_type = ''semantic_scholar'',
        link_ref = (case paperId data of Val s \<Rightarrow> SStr s | _ \<Rightarrow> SNull)\<rparr> \<and>
     paper_abstract p = (case abstract data of Val s \<Rightarrow> s | _ \<Rightarrow> []) \<and>
     length (paper_releases p) = 1 \<and>
     paper_scrapers p = [''ssch'']"
proof -
  assume "wrap_paper data = Inr p"
  then obtain kv auths date vt where
    p: "p = \<lparr>paper_links =
            \<lparr>link_type = ''semantic_scholar'',
             link_ref = (case get_or (paperId data) None of None \<Rightarrow> SNull | Some s \<Rightarrow> SStr s)\<rparr>
            # map external_link kv,
          paper_authors_list = auths,
          paper_title = get_or (title data) None,
          paper_abstract = (if truthy (get_or (abstract data) None) then the (get_or (abstract data) None) else []),
          paper_citation_count = get_or (citationCount data) None,
          paper_topics = map (\<lambda>f. \<lparr>topic_name = f\<rparr>) (if truthy (get_or (fieldsOfStudy data) None) then the (get_or (fieldsOfStudy data) None) else []),
          paper_releases =
            [\<lparr>release_venue =
                \<lparr>venue_type = vt, venue_name = get_or (venue data) None,
                 venue_volume = journal_volume (get_or (journal data) None), venue_links = []\<rparr>,
              release_date = fst date, release_date_precision = snd date\<rparr>],
          paper_scrapers = [''ssch'']\<rparr>"
    by (rule wrap_paper_Inr)
  have r: "(case get_or (paperId data) None of None \<Rightarrow> SNull | Some s \<Rightarrow> SStr s)
       = (case paperId data of Val s \<Rightarrow> SStr s | _ \<Rightarrow> SNull)"
    by (cases "paperId data") (simp_all add: get_or_def)
  have a: "(if truthy (get_or (abstract data) None) then the (get_or (abstract data) None) else [])
       = (case abstract data of Val s \<Rightarrow> s | _ \<Rightarrow> [])"
    by (cases "abstract data") (simp_all add: get_or_def truthy_def)
  from p r a show ?thesis by simp
qed

theorem wrap_paper_invariant_witness:
  "\<exists>p. wrap_paper example_paper = Inr p \<and> paper_links p \<noteq> [] \<and>
     hd (paper_links p) = \<lparr>link_type = ''semantic_scholar'', link_ref = SStr ''649def34''\<rparr> \<and>
     abstract example_paper = Null \<and> paper_abstract p = [] \<and>
     length (paper_releases p) = 1 \<and> paper_scrapers p = [''ssch'']"
proof -
  obtain p where p: "wrap_paper example_paper = Inr p"
    using wrap_example_paper by blast
  from wrap_paper_invariant [OF p] p show ?thesis
    by (simp add: example_paper_def)
qed


lemma wrap_example_paper_no_year:
  "wrap_paper (example_paper\<lparr>publicationDate := Null, year := Null\<rparr>) =
     Inr \<lparr>paper_links =
        [\<lparr>link_type = ''semantic_scholar'', link_ref = SStr ''649def34''\<rparr>,
         \<lparr>link_type = ''doi'', link_ref = SStr ''10.1000/x1''\<rparr>,
         \<lparr>link_type = ''pmc'', link_ref = SStr ''7001''\<rparr>,
         \<lparr>link_type = ''corpusid'', link_ref = SInt 42\<rparr>],
        paper_authors_list =
          [\<lparr>author_name = Some ''Oren Etzioni'', author_affiliations = [],
              author_aliases = [],
              author_links =
                [\<lparr>link_type = ''semantic_scholar'',
                    link_ref = SStr ''1741101''\<rparr>],
              author_roles = []\<rparr>],
        paper_title = Some ''A paper'', paper_abstract = [],
        paper_citation_count = Some 3, paper_topics = [],
        paper_releases =
          [\<lparr>release_venue =
              \<lparr>venue_type = VenueType_journal, venue_name = Some ''Nature'',
                 venue_volume = Volume (SStr ''7''), venue_links = []\<rparr>,
              release_date = None,
              release_date_precision = DatePrecision_unknown\<rparr>],
        paper_scrapers = [''ssch'']\<rparr>"
  by code_simp

lemma wrap_example_paper_year:
  "\<exists>p. wrap_paper (example_paper\<lparr>publicationDate := Null, year := Val 2019\<rparr>) = Inr p"
proof -
  have "case wrap_paper (example_paper\<lparr>publicationDate := Null, year := Val 2019\<rparr>) of
          Inl e \<Rightarrow> False | Inr p \<Rightarrow> True"
    by code_simp
  then show ?thesis
    by (cases "wrap_paper (example_paper\<lparr>publicationDate := Null, year := Val 2019\<rparr>)") simp_all
qed






text \<open>
  C2. The venue type is \<^verbatim>\<open>venue_type_mapping[key]\<close>, a lookup without default. A first
  publication type outside the table, such as \<^verbatim>\<open>CaseReport\<close>, raises \<^verbatim>\<open>KeyError\<close>.
\<close>

theorem wrap_paper_unmapped_type_raises:
  "wrap_paper (example_paper\<lparr>publicationTypes := Val [''CaseReport'']\<rparr>)
     = Inl (KeyError ''CaseReport'')"
  by code_simp

text \<open>
  The lookup on every input: the four table entries, \<open>unknown\<close> for an absent, null or
  empty list and for a first entry that is empty or the sentinel itself, \<^verbatim>\<open>KeyError\<close>
  for any other first entry.
\<close>

lemma venue_type_lookup:
  "table_item venue_type_mapping (venue_type_key f) =
     (case f of
        Val (t # ts) \<Rightarrow>
          if t = ''JournalArticle'' then Inr VenueType_journal
          else if t = ''Conference'' then Inr VenueType_conference
          else if t = ''Book'' then Inr VenueType_book
          else if t = ''Review'' then Inr VenueType_review
          else if t = ''_'' \<or> t = [] then Inr VenueType_unknown
          else Inl (KeyError t)
      | _ \<Rightarrow> Inr VenueType_unknown)"
  by (cases f) (auto simp: venue_type_key_def venue_type_mapping_def table_item_def get_or_def split: list.splits)

subsection \<open>The paginated listing\<close>

text \<open>
  A run whose cursor is null, or not below \<^verbatim>\<open>limit\<close>, returns at once and issues no
  request.
\<close>

lemma list_loop_stop:
  "run_offset s = None \<or> (\<exists>k. run_offset s = Some k \<and> \<not> k < l_limit L) \<Longrightarrow>
     list_loop get f L fuel s = (Returned, s)"
  by (subst list_loop.simps) auto

text \<open>
  Every request of a run is a page request of the listing at a cursor below
  \<^verbatim>\<open>limit\<close>; a run stopped for lack of fuel has issued as many requests as it had fuel.
\<close>

lemma list_loop_requests:
  "list_loop get f L fuel s = (out, s') \<Longrightarrow>
     \<exists>rs. run_requests s' = run_requests s @ rs \<and>
          (\<forall>r\<in>set rs. \<exists>k. r = page_request L k \<and> k < l_limit L) \<and>
          (out = OutOfFuel \<longrightarrow> length rs = fuel)"
proof (induction fuel arbitrary: s)
  case 0
  then show ?case
    by (subst (asm) list_loop.simps) (auto split: option.splits if_splits)
next
  case (Suc n)
  from Suc.prems show ?case
    apply (subst (asm) list_loop.simps)
    apply (auto split: option.splits if_splits prod.splits sum.splits jfield.splits simp: Let_def dest!: Suc.IH)
    done
qed

text \<open>
  A run returns only with a cursor that is null or has reached \<^verbatim>\<open>limit\<close>, and runs
  out of fuel only with a cursor still below it.
\<close>

lemma list_loop_outcome:
  "list_loop get f L fuel s = (out, s') \<Longrightarrow>
     (out = Returned \<longrightarrow> (case run_offset s' of None \<Rightarrow> True | Some k \<Rightarrow> l_limit L \<le> k)) \<and>
     (out = OutOfFuel \<longrightarrow> (\<exists>k. run_offset s' = Some k \<and> k < l_limit L))"
proof (induction fuel arbitrary: s)
  case 0
  then show ?case
    by (subst (asm) list_loop.simps) (auto split: option.splits if_splits)
next
  case (Suc n)
  from Suc.prems show ?case
    apply (subst (asm) list_loop.simps)
    apply (auto split: option.splits if_splits prod.splits sum.splits jfield.splits simp: Let_def dest!: Suc.IH)
    done
qed

text \<open>
  When every \<^verbatim>\<open>next\<close> the server gives lies beyond the offset requested, the loop ends
  within \<^verbatim>\<open>limit\<close> minus the cursor requests.
\<close>

lemma list_loop_enough_fuel:
  assumes adv: "\<And>c k b c' n. get c (page_request L k) = (Body b, c') \<Longrightarrow> body_next b = Val n \<Longrightarrow> k < n"
  shows "list_loop get f L fuel s = (out, s') \<Longrightarrow>
     (case run_offset s of None \<Rightarrow> True | Some k \<Rightarrow> nat (l_limit L - k) \<le> fuel) \<Longrightarrow>
     out \<noteq> OutOfFuel"
proof (induction fuel arbitrary: s)
  case 0
  then show ?case
    by (subst (asm) list_loop.simps) (auto split: option.splits if_splits)
next
  case (Suc n)
  show ?case
  proof (cases "run_offset s")
    case None
    with Suc.prems show ?thesis by (simp add: list_loop_stop)
  next
    case (Some k)
    show ?thesis
    proof (cases "k < l_limit L")
      case False
      with Some Suc.prems show ?thesis by (simp add: list_loop_stop)
    next
      case True
      obtain rep c' where g: "get (run_conn s) (page_request L k) = (rep, c')"
        by (cases "get (run_conn s) (page_request L k)")
      show ?thesis
      proof (cases rep)
        case (Failure e)
        with Suc.prems(1) Some True g show ?thesis
          by (subst (asm) list_loop.simps) (auto simp: evaluate_def)
      next
        case (Body b)
        have nxt: "case get_or (body_next b) None of None \<Rightarrow> True
                   | Some k' \<Rightarrow> nat (l_limit L - k') \<le> n"
        proof (cases "body_next b")
          case (Val k')
          with adv [OF g [unfolded Body]] have "k < k'" by simp
          with Suc.prems(2) Some True Val show ?thesis
            by (simp add: get_or_def)
        qed (simp_all add: get_or_def)
        have IH: "out = OutOfFuel \<Longrightarrow> list_loop get f L n s1 = (OutOfFuel, s') \<Longrightarrow>
            (case run_offset s1 of None \<Rightarrow> True | Some k \<Rightarrow> nat (l_limit L - k) \<le> n) \<Longrightarrow> False"
          for s1
          using Suc.IH [of s1] by simp
        from Suc.prems(1) Some True g Body nxt show ?thesis
          apply (subst (asm) list_loop.simps)
          apply (auto simp: evaluate_def Let_def split: option.splits jfield.splits prod.splits)
           apply (erule (1) IH; simp)+
          done
      qed
    qed
  qed
qed

text \<open>
  What bounds the requests of a listing, whatever the caller does with the entries: the
  page size of every request is the constant \<^verbatim>\<open>min(block_size or 10000, limit)\<close>, which
  never exceeds \<^verbatim>\<open>limit\<close>; a request is issued only at an offset below \<^verbatim>\<open>limit\<close>; a
  run returns only with a cursor that is null or has reached \<^verbatim>\<open>limit\<close>; and when every
  \<^verbatim>\<open>next\<close> lies beyond the offset requested, \<^verbatim>\<open>limit\<close> requests are enough for the
  iteration to end. Nothing here bounds the number of records yielded.
\<close>

lemma list_gen_requests:
  "list_gen get f path flds block_size limit params fuel c = (out, s) \<Longrightarrow>
     (let page = min (if block_size = 0 then 10000 else block_size) limit in
      page \<le> limit \<and>
      (\<forall>r\<in>set (run_requests s).
         req_path r = path \<and> req_limit r = page \<and> req_offset r < limit) \<and>
      (out = Returned \<longrightarrow> (case run_offset s of None \<Rightarrow> True | Some k \<Rightarrow> limit \<le> k)) \<and>
      (out = OutOfFuel \<longrightarrow>
         length (run_requests s) = fuel \<and> (\<exists>k. run_offset s = Some k \<and> k < limit)) \<and>
      ((\<forall>c k b c' n.
          get c \<lparr>req_path = path, req_offset = k, req_fields = join '','' flds,
                 req_limit = page, req_params = params\<rparr> = (Body b, c')
          \<and> body_next b = Val n \<longrightarrow> k < n)
        \<and> nat limit \<le> fuel \<longrightarrow> out \<noteq> OutOfFuel))"
proof -
  define L where "L = \<lparr>l_path = path, l_fields = join '','' flds,
        l_page_limit = min (if block_size = 0 then 10000 else block_size) limit,
        l_params = params, l_limit = limit\<rparr>"
  assume "list_gen get f path flds block_size limit params fuel c = (out, s)"
  then have run: "list_loop get f L fuel
      \<lparr>run_offset = Some 0, run_yielded = [], run_requests = [], run_conn = c\<rparr> = (out, s)"
    by (simp add: list_gen_def L_def)
  from list_loop_requests [OF run] have
    req: "\<forall>r\<in>set (run_requests s). \<exists>k. r = page_request L k \<and> k < l_limit L"
    and fuel: "out = OutOfFuel \<longrightarrow> length (run_requests s) = fuel"
    by auto
  from req have 1: "\<forall>r\<in>set (run_requests s).
         req_path r = path \<and>
         req_limit r = min (if block_size = 0 then 10000 else block_size) limit \<and>
         req_offset r < limit"
    by (auto simp: page_request_def L_def)
  have lim: "l_limit L = limit"
    by (simp add: L_def)
  note oc = list_loop_outcome [OF run]
  have 2: "out = Returned \<longrightarrow> (case run_offset s of None \<Rightarrow> True | Some k \<Rightarrow> limit \<le> k)"
    using oc lim by (cases "run_offset s") simp_all
  have 3: "out = OutOfFuel \<longrightarrow> (\<exists>k. run_offset s = Some k \<and> k < limit)"
    using oc lim by simp
  have 4: "out \<noteq> OutOfFuel"
    if adv: "\<forall>c k b c' n.
          get c \<lparr>req_path = path, req_offset = k, req_fields = join '','' flds,
                 req_limit = min (if block_size = 0 then 10000 else block_size) limit,
                 req_params = params\<rparr> = (Body b, c')
          \<and> body_next b = Val n \<longrightarrow> k < n"
      and enough: "nat limit \<le> fuel"
  proof (rule list_loop_enough_fuel [OF _ run])
    fix c k b c' n
    assume "get c (page_request L k) = (Body b, c')" and n: "body_next b = Val n"
    then have "get c \<lparr>req_path = path, req_offset = k, req_fields = join '','' flds,
                 req_limit = min (if block_size = 0 then 10000 else block_size) limit,
                 req_params = params\<rparr> = (Body b, c')"
      by (simp add: page_request_def L_def)
    with adv n show "k < n" by blast
  next
    from enough show "case run_offset
        \<lparr>run_offset = Some 0, run_yielded = [], run_requests = [], run_conn = c\<rparr> of
        None \<Rightarrow> True | Some k \<Rightarrow> nat (l_limit L - k) \<le> fuel"
      by (simp add: L_def)
  qed
  show ?thesis
    unfolding Let_def
  proof (intro conjI)
    show "min (if block_size = 0 then 10000 else block_size) limit \<le> limit"
      by simp
    show "\<forall>r\<in>set (run_requests s).
         req_path r = path \<and>
         req_limit r = min (if block_size = 0 then 10000 else block_size) limit \<and>
         req_offset r < limit"
      by (rule 1)
    show "out = Returned \<longrightarrow> (case run_offset s of None \<Rightarrow> True | Some k \<Rightarrow> limit \<le> k)"
      by (rule 2)
    show "out = OutOfFuel \<longrightarrow>
         length (run_requests s) = fuel \<and> (\<exists>k. run_offset s = Some k \<and> k < limit)"
      using fuel 3 by blast
    show "(\<forall>c k b c' n.
          get c \<lparr>req_path = path, req_offset = k, req_fields = join '','' flds,
                 req_limit = min (if block_size = 0 then 10000 else block_size) limit,
                 req_params = params\<rparr> = (Body b, c')
          \<and> body_next b = Val n \<longrightarrow> k < n)
        \<and> nat limit \<le> fuel \<longrightarrow> out \<noteq> OutOfFuel"
    proof (intro impI, elim conjE)
      assume a: "\<forall>c k b c' n.
          get c \<lparr>req_path = path, req_offset = k, req_fields = join '','' flds,
                 req_limit = min (if block_size = 0 then 10000 else block_size) limit,
                 req_params = params\<rparr> = (Body b, c')
          \<and> body_next b = Val n \<longrightarrow> k < n"
        and e: "nat limit \<le> fuel"
      show "out \<noteq> OutOfFuel"
        by (rule 4 [OF a e])
    qed
  qed
qed

lemma paged_run:
  "list_gen (paged_server [1, 2, 3, 4, 5, 6, 7 :: int]) Inr ''paper/1/authors'' [''name''] 2 5 [] 10 0
     = (Returned,
        \<lparr>run_offset = Some 6, run_yielded = [1, 2, 3, 4, 5, 6],
         run_requests =
           [\<lparr>req_path = ''paper/1/authors'', req_offset = 0, req_fields = ''name'',
             req_limit = 2, req_params = []\<rparr>,
            \<lparr>req_path = ''paper/1/authors'', req_offset = 2, req_fields = ''name'',
             req_limit = 2, req_params = []\<rparr>,
            \<lparr>req_path = ''paper/1/authors'', req_offset = 4, req_fields = ''name'',
             req_limit = 2, req_params = []\<rparr>],
         run_conn = 3\<rparr>)"
  by code_simp


lemma paged_run_short:
  "list_gen (paged_server [1, 2, 3, 4, 5, 6, 7 :: int]) Inr ''paper/1/authors'' [''name''] 2 5 [] 2 0
     = (OutOfFuel,
        \<lparr>run_offset = Some 4, run_yielded = [1, 2, 3, 4],
         run_requests =
           [\<lparr>req_path = ''paper/1/authors'', req_offset = 0, req_fields = ''name'',
             req_limit = 2, req_params = []\<rparr>,
            \<lparr>req_path = ''paper/1/authors'', req_offset = 2, req_fields = ''name'',
             req_limit = 2, req_params = []\<rparr>],
         run_conn = 2\<rparr>)"
  by code_simp

lemma list_gen_requests_sample:
  "list_gen (paged_server [1, 2, 3, 4, 5, 6, 7 :: int]) Inr ''paper/1/authors'' [''name''] 2 5 [] 10 0
     = (Returned,
        \<lparr>run_offset = Some 6, run_yielded = [1, 2, 3, 4, 5, 6],
         run_requests =
           [\<lparr>req_path = ''paper/1/authors'', req_offset = 0, req_fields = ''name'',
             req_limit = 2, req_params = []\<rparr>,
            \<lparr>req_path = ''paper/1/authors'', req_offset = 2, req_fields = ''name'',
             req_limit = 2, req_params = []\<rparr>,
            \<lparr>req_path = ''paper/1/authors'', req_offset = 4, req_fields = ''name'',
             req_limit = 2, req_params = []\<rparr>],
         run_conn = 3\<rparr>)
   \<and> min (if (2::int) = 0 then 10000 else 2) 5 = (2::int) \<and> (2::int) \<le> 5
   \<and> (0::int) < 5 \<and> (2::int) < 5 \<and> (4::int) < 5 \<and> (5::int) \<le> 6
   \<and> nat 5 \<le> 10 \<and> Returned \<noteq> OutOfFuel
   \<and> fst (list_gen (paged_server [1, 2, 3, 4, 5, 6, 7 :: int]) Inr ''paper/1/authors''
            [''name''] 2 5 [] 2 0) = OutOfFuel
   \<and> length (run_requests (snd (list_gen (paged_server [1, 2, 3, 4, 5, 6, 7 :: int]) Inr
            ''paper/1/authors'' [''name''] 2 5 [] 2 0))) = 2"
  using list_gen_requests [OF paged_run] list_gen_requests [OF paged_run_short]
  by (simp add: paged_run paged_run_short)

text \<open>
  With \<^verbatim>\<open>block_size = 2\<close> and \<^verbatim>\<open>limit = 5\<close> on seven records, the requests of
  \<^verbatim>\<open>paper_authors\<close> go out at offsets 0, 2 and 4, each for two records: six records
  are yielded, and the last request asks for two where one remains of the budget.
\<close>

lemma paper_authors_beyond_limit:
  "(case paper_authors (paged_server [1, 2, 3, 4, 5, 6, 7 :: int]) ''1'' [''name'']
           2 5 [] 10 0 of
      (out, s) \<Rightarrow>
        out = Returned \<and> run_yielded s = [1, 2, 3, 4, 5, 6] \<and>
        \<not> int (length (run_yielded s)) \<le> 5 \<and>
        map req_offset (run_requests s) = [0, 2, 4] \<and>
        map req_limit (run_requests s) = [2, 2, 2] \<and>
        \<not> req_limit (last (run_requests s)) \<le> 5 - req_offset (last (run_requests s)))"
  by code_simp

text \<open>
  C1. \<^verbatim>\<open>limit\<close> is documented as the maximal number of results to return, but
  \<^verbatim>\<open>_list\<close> compares it with the offset cursor and asks for a full page every time.
  The entry point \<^verbatim>\<open>query\<close> with a title, \<^verbatim>\<open>block_size = 2\<close> and \<^verbatim>\<open>limit = 5\<close>, on
  a server holding seven papers, issues the requests at offsets 0, 2 and 4, each for two
  records, and yields six papers.
\<close>

theorem query_yields_beyond_limit:
  "(let r = query (paged_server (replicate 7 example_paper)) (paged_server []) (0::nat) []
              [''graph'', ''networks''] 2 5 10
    in q_outcome r = Returned \<and>
       length (q_yielded r) = 6 \<and> \<not> int (length (q_yielded r)) \<le> 5 \<and>
       map req_path (q_requests r) = [''paper/search'', ''paper/search'', ''paper/search''] \<and>
       map req_offset (q_requests r) = [0, 2, 4] \<and>
       map req_limit (q_requests r) = [2, 2, 2])"
  by code_simp


lemma rate_limited_run:
  "list_gen (rate_limited_server [1, 2, 3, 4, 5, 6, 7 :: int]) Inr ''paper/search'' [''title''] 2 5
       [(''query'', ''graphs'')] 10 0
     = (Raised (QueryError ''rate limit exceeded''),
        \<lparr>run_offset = Some 2, run_yielded = [1, 2],
         run_requests =
           [\<lparr>req_path = ''paper/search'', req_offset = 0, req_fields = ''title'',
             req_limit = 2, req_params = [(''query'', ''graphs'')]\<rparr>,
            \<lparr>req_path = ''paper/search'', req_offset = 2, req_fields = ''title'',
             req_limit = 2, req_params = [(''query'', ''graphs'')]\<rparr>],
         run_conn = 2\<rparr>)"
  by code_simp


subsection \<open>The endpoints and the entry point\<close>

text \<open>
  C7. \<^verbatim>\<open>paper_references\<close> and \<^verbatim>\<open>paper_citations\<close> are the same function: both list
  the path \<^verbatim>\<open>paper/{paper_id}/citations\<close>, and their default field sets are equal.
\<close>

theorem paper_references_is_paper_citations:
  "paper_references = paper_citations \<and>
   PAPER_REFERENCES_FIELDS = PAPER_CITATIONS_FIELDS \<and>
   (\<forall>get paper_id flds block_size limit params fuel c.
      paper_references get paper_id flds block_size limit params fuel c =
        list_pages get (''paper/'' @ paper_id @ ''/citations'') flds block_size limit params fuel c)"
  by (intro conjI ext allI)
     (simp_all add: paper_references_def paper_citations_def PAPER_REFERENCES_FIELDS_def)

text \<open>
  C8. When the joined author term and the joined title term are both non-empty,
  \<^verbatim>\<open>query\<close> raises \<^verbatim>\<open>QueryError\<close> before the manager, and with it the connection, is
  constructed: no request is issued, nothing is yielded or printed.
\<close>

theorem query_both_terms_usage_error:
  "join '' '' author_opt \<noteq> [] \<Longrightarrow> join '' '' title_opt \<noteq> [] \<Longrightarrow>
     query get_papers get_authors new_conn author_opt title_opt block_size limit fuel =
       \<lparr>q_outcome = Raised (QueryError ''Cannot query both author and title''),
        q_conn = None, q_requests = [], q_yielded = [], q_printed = []\<rparr>"
  by (simp add: query_def Let_def)

theorem query_both_terms_usage_error_witness:
  "join '' '' [''Yoshua'', ''Bengio''] \<noteq> [] \<and> join '' '' [''deep'', ''learning''] \<noteq> [] \<and>
   query (paged_server [example_paper]) (paged_server [example_author]) 0
       [''Yoshua'', ''Bengio''] [''deep'', ''learning''] 100 10000 5 =
     \<lparr>q_outcome = Raised (QueryError ''Cannot query both author and title''),
      q_conn = None, q_requests = [], q_yielded = [], q_printed = []\<rparr>"
  using query_both_terms_usage_error
    [of "[''Yoshua'', ''Bengio'']" "[''deep'', ''learning'']"
        "paged_server [example_paper]" "paged_server [example_author]" 0 100 10000 5]
  by simp

subsection \<open>The request rate\<close>

lemma acquirer_get_delay: "acq_delay (snd (acquirer_get a now)) = acq_delay a"
  by (simp add: acquirer_get_def Let_def)

lemma acquirer_get_last: "acq_last (snd (acquirer_get a now)) = Some (fst (acquirer_get a now))"
  by (simp add: acquirer_get_def Let_def)

lemma issue_times_spaced:
  "Suc i < length nows \<Longrightarrow>
     issue_times a nows ! i + acq_delay a \<le> issue_times a nows ! Suc i"
proof (induction nows arbitrary: a i)
  case Nil
  then show ?case by simp
next
  case (Cons now nows)
  obtain t a' where g: "acquirer_get a now = (t, a')"
    by (cases "acquirer_get a now")
  from g have d: "acq_delay a' = acq_delay a" and l: "acq_last a' = Some t"
    using acquirer_get_delay [of a now] acquirer_get_last [of a now] by simp_all
  show ?case
  proof (cases i)
    case 0
    with Cons.prems obtain now2 rest where nows: "nows = now2 # rest"
      by (cases nows) auto
    obtain t2 a2 where g2: "acquirer_get a' now2 = (t2, a2)"
      by (cases "acquirer_get a' now2")
    from g2 l d have "t + acq_delay a \<le> t2"
      by (auto simp: acquirer_get_def Let_def)
    with 0 g g2 nows show ?thesis by simp
  next
    case (Suc j)
    with Cons.prems have "Suc j < length nows" by simp
    from Cons.IH [OF this, of a'] d g Suc show ?thesis by simp
  qed
qed

text \<open>
  C10. The delay configured by the manager is \<^verbatim>\<open>5 * 60 / 100\<close>, that is 3 seconds, and
  any two successive requests of its connection are issued at least that far apart,
  whenever the calls are made.
\<close>

theorem manager_request_spacing:
  "manager_delay = 3 \<and> acq_delay manager_conn = manager_delay \<and>
   (\<forall>nows i. Suc i < length nows \<longrightarrow>
      issue_times manager_conn nows ! i + manager_delay \<le> issue_times manager_conn nows ! Suc i)"
proof (intro conjI allI impI)
  show "manager_delay = 3"
    by (simp add: manager_delay_def)
  show d: "acq_delay manager_conn = manager_delay"
    by (simp add: manager_conn_def HTTPSAcquirer_def)
  fix nows :: "rat list" and i
  assume "Suc i < length nows"
  from issue_times_spaced [OF this, of manager_conn] d
  show "issue_times manager_conn nows ! i + manager_delay \<le> issue_times manager_conn nows ! Suc i"
    by simp
qed

lemma issue_times_sample: "issue_times manager_conn [0, 1, 10] = [0, 3, 10]"
  by (simp add: manager_conn_def HTTPSAcquirer_def manager_delay_def acquirer_get_def Let_def)

theorem manager_request_spacing_witness:
  "Suc 0 < length [0, 1, 10 :: rat] \<and> issue_times manager_conn [0, 1, 10] = [0, 3, 10] \<and>
   issue_times manager_conn [0, 1, 10] ! 0 + 3 \<le> issue_times manager_conn [0, 1, 10] ! Suc 0"
  using manager_request_spacing issue_times_sample
  by simp

end
